theory Spec2Isabelle
  imports Main "HOL-Library.Word"
begin

section \<open>JavaScript strings and values\<close>

text \<open>
  A JavaScript string is a sequence of UTF-16 code units. \<open>js\<close> embeds an ASCII
  literal, so that \<open>js ''foo.ts''\<close> is the string \<^verbatim>\<open>'foo.ts'\<close>.
\<close>

type_synonym code_unit = "16 word"
type_synonym jsstring = "code_unit list"

definition js :: "string \<Rightarrow> jsstring" where
  "js s = map (\<lambda>c. of_nat (of_char c)) s"

text \<open>
  \<^verbatim>\<open>String.prototype.trim\<close> strips the code points of the ECMAScript productions
  WhiteSpace (TAB, VT, FF, ZWNBSP and the category Zs) and LineTerminator (LF, CR, LS, PS)
  from both ends.
\<close>

definition isWhiteSpace :: "code_unit \<Rightarrow> bool" where
  "isWhiteSpace c =
     (c \<in> set [0x0009, 0x000A, 0x000B, 0x000C, 0x000D, 0x0020, 0x00A0, 0x1680,
                0x2028, 0x2029, 0x202F, 0x205F, 0x3000, 0xFEFF]
      \<or> (0x2000 \<le> c \<and> c \<le> 0x200A))"

definition trim :: "jsstring \<Rightarrow> jsstring" where
  "trim s = rev (dropWhile isWhiteSpace (rev (dropWhile isWhiteSpace s)))"

text \<open>
  An optional string argument is \<open>None\<close> when it is \<^verbatim>\<open>undefined\<close>. In a condition
  (\<^verbatim>\<open>filePath || ...\<close>, \<^verbatim>\<open>data ? ... : ...\<close>, \<^verbatim>\<open>if (filePath)\<close>) the
  empty string is as false as \<^verbatim>\<open>undefined\<close>.
\<close>

fun truthy :: "jsstring option \<Rightarrow> bool" where
  "truthy None = False"
| "truthy (Some s) = (s \<noteq> [])"

text \<open>The template literal \<^verbatim>\<open>${n}\<close> of a counter: its decimal digits.\<close>

function decimal :: "nat \<Rightarrow> jsstring" where
  "decimal n =
     (if n < 10 then [of_nat (48 + n)]
      else decimal (n div 10) @ [of_nat (48 + n mod 10)])"
  by pat_completeness auto
termination
  by (relation "measure id") auto

declare decimal.simps [simp del]

text \<open>
  \<^verbatim>\<open>filePath?.match(/\.[jt]s$/)\<close>: without the \<^verbatim>\<open>m\<close> flag \<^verbatim>\<open>$\<close> is the end of the
  input, so the test is on the last three code units.
\<close>

fun endsWithJsOrTs :: "jsstring \<Rightarrow> bool" where
  "endsWithJsOrTs p =
     (case rev p of
        c3 # c2 # c1 # _ \<Rightarrow> c1 = 0x2E \<and> (c2 = 0x6A \<or> c2 = 0x74) \<and> c3 = 0x73
      | _ \<Rightarrow> False)"

text \<open>
  What the sandbox leaves in \<^verbatim>\<open>context.resource\<close>. \<open>JObject d\<close> is an object whose
  property \<^verbatim>\<open>default\<close> has the value \<open>d\<close> (\<open>JUndefined\<close> when it has none).
\<close>

datatype js_value =
    JUndefined
  | JNull
  | JBoolean bool
  | JNumber int
  | JString jsstring
  | JObject js_value

text \<open>
  The two accepted shapes, in the order of the source:
  \<^verbatim>\<open>typeof context.resource === 'string'\<close>, then
  \<^verbatim>\<open>typeof context.resource?.default === 'string'\<close>.
\<close>

fun exportedString :: "js_value \<Rightarrow> jsstring option" where
  "exportedString (JString r) = Some r"
| "exportedString (JObject (JString r)) = Some r"
| "exportedString v = None"

text \<open>\<^verbatim>\<open>a || b\<close> on an optional string.\<close>

fun orElse :: "jsstring option \<Rightarrow> jsstring \<Rightarrow> jsstring" where
  "orElse None d = d"
| "orElse (Some a) d = (if a = [] then d else a)"

text \<open>
  A JavaScript \<^verbatim>\<open>Set\<close> of strings iterates in insertion order and holds no element
  twice; a \<^verbatim>\<open>Map\<close> is only looked up by key here, never iterated.
\<close>

type_synonym js_set = "jsstring list"

definition Set_add :: "js_set \<Rightarrow> jsstring \<Rightarrow> js_set" where
  "Set_add xs x = (if x \<in> set xs then xs else xs @ [x])"

definition new_Set :: "jsstring list \<Rightarrow> js_set" where
  "new_Set xs = fold (\<lambda>x acc. Set_add acc x) xs []"

section \<open>The loader and its collaborators\<close>

datatype error =
    MissingParentContext
  | UnsupportedResourceType jsstring
  | UnknownChildCompilationError
  | InvalidResourceExport jsstring
  | NestedCompilationError jsstring

record CompilationOutput =
  content :: jsstring
  map_opt :: "jsstring option"
  success :: bool

text \<open>
  The child compilation as webpack hands it to the hooks and to the callback of
  \<^verbatim>\<open>runAsChild\<close>: its emitted assets by name, its errors, the files it read.
\<close>

record child_compilation =
  assets :: "jsstring \<rightharpoonup> jsstring"
  errors :: "error list"
  child_fileDependencies :: "jsstring list"

datatype child_outcome =
    ChildError error
  | NoChildCompilation
  | ChildCompilation child_compilation

text \<open>
  What \<^verbatim>\<open>_compile\<close> hands to \<^verbatim>\<open>createChildCompiler\<close>: the output file name, the
  request of the single entry, and, when inline data is given, the resource served
  for the scheme \<^verbatim>\<open>angular-resource\<close>.
\<close>

record scheme_resource =
  resource_data :: jsstring
  resource_path :: "jsstring option"
  resource_mimetype :: "jsstring option"

record child_request =
  filename :: jsstring
  entry :: "jsstring option"
  scheme :: "scheme_resource option"

text \<open>
  The collaborators of the loader are outside the repository's sources and are
  parameters of the model: \<open>normalizePath\<close> (imported from \<^verbatim>\<open>./ivy/paths\<close>),
  \<open>isWebpackFiveOrHigher\<close>, the sandbox \<^verbatim>\<open>vm.runInNewContext\<close> (source and file
  name to an outcome), and webpack's child compiler. The parent compilation is a
  value of type \<open>'w\<close>; \<open>runAsChild\<close> runs one child compiler on it and returns the
  outcome with the parent as the run leaves it, so that a run that did not happen
  leaves the parent as it was. The child compilation in the outcome is the one the
  taps of the loader see; \<open>compile\<close> applies them to it in webpack's order, the tap
  on \<^verbatim>\<open>additionalAssets\<close> before the one that captures the output.

  The private members \<^verbatim>\<open>_parentCompilation\<close>, \<^verbatim>\<open>_fileDependencies\<close>,
  \<^verbatim>\<open>_reverseDependencies\<close>, \<^verbatim>\<open>_compile\<close> and \<^verbatim>\<open>_evaluate\<close> lose their
  underscore. A call of an \<^verbatim>\<open>async\<close> method runs to its end before the next one
  starts; a rejected promise is an \<open>Inl\<close>.
\<close>

datatype vm_outcome = VmThrows | VmDone js_value

record 'w webpack =
  normalizePath :: "jsstring \<Rightarrow> jsstring"
  isWebpackFiveOrHigher :: bool
  runInNewContext :: "jsstring \<Rightarrow> jsstring \<Rightarrow> vm_outcome"
  runAsChild :: "'w \<Rightarrow> child_request \<Rightarrow> child_outcome \<times> 'w"

record 'w loader =
  parentCompilation :: "'w option"
  fileDependencies :: "jsstring \<rightharpoonup> js_set"
  reverseDependencies :: "jsstring \<rightharpoonup> js_set"
  cache :: "jsstring \<rightharpoonup> CompilationOutput"
  modifiedResources :: js_set
  outputPathCounter :: nat

definition new_loader :: "'w loader" where
  "new_loader =
     \<lparr>parentCompilation = None, fileDependencies = Map.empty,
      reverseDependencies = Map.empty, cache = Map.empty,
      modifiedResources = [], outputPathCounter = 1\<rparr>"

subsection \<open>Dependency queries\<close>

definition getModifiedResourceFiles :: "'w loader \<Rightarrow> js_set" where
  "getModifiedResourceFiles s = modifiedResources s"

definition getResourceDependencies :: "'w loader \<Rightarrow> jsstring \<Rightarrow> js_set" where
  "getResourceDependencies s filePath =
     (case fileDependencies s filePath of Some deps \<Rightarrow> deps | None \<Rightarrow> [])"

definition getAffectedResources :: "'w loader \<Rightarrow> jsstring \<Rightarrow> js_set" where
  "getAffectedResources s file =
     (case reverseDependencies s file of Some rs \<Rightarrow> rs | None \<Rightarrow> [])"

definition setAffectedResources :: "'w loader \<Rightarrow> jsstring \<Rightarrow> jsstring list \<Rightarrow> 'w loader" where
  "setAffectedResources s file resources =
     s\<lparr>reverseDependencies := (reverseDependencies s)(file \<mapsto> new_Set resources)\<rparr>"

text \<open>
  The set of strings that a dependency map holds under a key, and the half of the
  graph invariant that recording maintains: a file in the forward set of a resource
  has the resource in the reverse set of its normalised path.
\<close>

definition entries :: "(jsstring \<rightharpoonup> js_set) \<Rightarrow> jsstring \<Rightarrow> jsstring set" where
  "entries m k = (case m k of Some e \<Rightarrow> set e | None \<Rightarrow> {})"

definition forwardInReverse :: "'w webpack \<Rightarrow> 'w loader \<Rightarrow> bool" where
  "forwardInReverse env s =
     (\<forall>R F. F \<in> set (getResourceDependencies s R)
        \<longrightarrow> R \<in> set (getAffectedResources s (normalizePath env F)))"

subsection \<open>update\<close>

text \<open>
  \<^verbatim>\<open>changedFiles\<close> is an optional iterable: \<open>None\<close> when the argument is absent. The
  inner loop body deletes the normalised resource from the cache and adds the
  resource to the modified set.
\<close>

definition evict :: "'w webpack \<Rightarrow> jsstring \<Rightarrow> 'w loader \<Rightarrow> 'w loader" where
  "evict env affectedResource s =
     s\<lparr>cache := (cache s)(normalizePath env affectedResource := None),
       modifiedResources := Set_add (modifiedResources s) affectedResource\<rparr>"

definition update :: "'w webpack \<Rightarrow> 'w loader \<Rightarrow> 'w \<Rightarrow> jsstring list option \<Rightarrow> 'w loader" where
  "update env s parent changedFiles =
     (let s1 = s\<lparr>parentCompilation := Some parent, modifiedResources := []\<rparr>
      in case changedFiles of
           Some files \<Rightarrow>
             fold (\<lambda>changedFile st. fold (evict env) (getAffectedResources st changedFile) st)
               files s1
         | None \<Rightarrow> s1\<lparr>cache := Map.empty\<rparr>)"

subsection \<open>The nested compilation\<close>

definition evaluate :: "'w webpack \<Rightarrow> jsstring \<Rightarrow> jsstring \<Rightarrow> error + jsstring option" where
  "evaluate env fname source =
     (case runInNewContext env source fname of
        VmThrows \<Rightarrow> Inr None
      | VmDone resource \<Rightarrow>
          (case exportedString resource of
             Some r \<Rightarrow> Inr (Some r)
           | None \<Rightarrow> Inl (InvalidResourceExport fname)))"

text \<open>
  The tap on \<^verbatim>\<open>additionalAssets\<close>: evaluate the emitted asset and put the string in
  its place; an error thrown by the evaluation is caught and pushed on the errors of
  the child compilation.
\<close>

definition additionalAssets ::
  "'w webpack \<Rightarrow> jsstring \<Rightarrow> child_compilation \<Rightarrow> child_compilation" where
  "additionalAssets env outputFilePath compilation =
     (case assets compilation outputFilePath of
        None \<Rightarrow> compilation
      | Some asset \<Rightarrow>
          (case evaluate env outputFilePath asset of
             Inr (Some output) \<Rightarrow>
               compilation\<lparr>assets := (assets compilation)(outputFilePath \<mapsto> output)\<rparr>
           | Inr None \<Rightarrow> compilation
           | Inl err \<Rightarrow> compilation\<lparr>errors := errors compilation @ [err]\<rparr>))"

text \<open>
  The tap that captures the output and its source map and deletes both assets. It
  sits on \<^verbatim>\<open>processAssets\<close> for webpack 5 and on \<^verbatim>\<open>afterCompile\<close> before; the
  body is the same.
\<close>

definition captureAssets ::
  "jsstring \<Rightarrow> child_compilation \<Rightarrow> jsstring option \<times> jsstring option \<times> child_compilation" where
  "captureAssets outputFilePath childCompilation =
     (assets childCompilation outputFilePath,
      assets childCompilation (outputFilePath @ js ''.map''),
      childCompilation\<lparr>assets :=
        (assets childCompilation)(outputFilePath := None, outputFilePath @ js ''.map'' := None)\<rparr>)"

text \<open>The block under \<^verbatim>\<open>// Save the dependencies for this resource.\<close>\<close>

definition addReverse :: "'w webpack \<Rightarrow> jsstring \<Rightarrow> jsstring \<Rightarrow> (jsstring \<rightharpoonup> js_set) \<Rightarrow> (jsstring \<rightharpoonup> js_set)" where
  "addReverse env filePath file rev_map =
     (let resolvedFile = normalizePath env file
      in case rev_map resolvedFile of
           Some e \<Rightarrow> rev_map(resolvedFile \<mapsto> Set_add e filePath)
         | None \<Rightarrow> rev_map(resolvedFile \<mapsto> new_Set [filePath]))"

definition saveDependencies ::
  "'w webpack \<Rightarrow> 'w loader \<Rightarrow> jsstring option \<Rightarrow> jsstring list \<Rightarrow> 'w loader" where
  "saveDependencies env s filePath deps =
     (case filePath of
        None \<Rightarrow> s
      | Some fp \<Rightarrow>
          (if fp = [] then s
           else s\<lparr>fileDependencies := (fileDependencies s)(fp \<mapsto> new_Set deps),
                  reverseDependencies :=
                    fold (addReverse env fp) deps (reverseDependencies s)\<rparr>))"

definition angularScheme :: jsstring where
  "angularScheme = js ''angular-resource://''"

definition childRequest ::
  "jsstring \<Rightarrow> jsstring option \<Rightarrow> jsstring option \<Rightarrow> jsstring option \<Rightarrow> child_request" where
  "childRequest outputFilePath filePath data mimeType =
     \<lparr>filename = outputFilePath,
      entry = (if truthy data then Some angularScheme else filePath),
      scheme =
        (case data of
           None \<Rightarrow> None
         | Some d \<Rightarrow>
             Some \<lparr>resource_data = d,
                   resource_path = (if truthy filePath then filePath else None),
                   resource_mimetype = (if truthy mimeType then mimeType else None)\<rparr>)\<rparr>"

text \<open>
  The sanity check rejects with the message about a JavaScript or TypeScript file;
  \<open>resolveOutput\<close> is the \<^verbatim>\<open>resolve({...})\<close> of the callback.
\<close>

fun sanityCheck :: "jsstring option \<Rightarrow> error option" where
  "sanityCheck None = None"
| "sanityCheck (Some fp) = (if endsWithJsOrTs fp then Some (UnsupportedResourceType fp) else None)"

definition resolveOutput ::
  "jsstring option \<Rightarrow> jsstring option \<Rightarrow> child_compilation \<Rightarrow> CompilationOutput" where
  "resolveOutput finalContent finalMap childCompilation =
     \<lparr>content = (case finalContent of Some c \<Rightarrow> c | None \<Rightarrow> []),
      map_opt = finalMap,
      success = (length (errors childCompilation) = 0)\<rparr>"

text \<open>
  \<^verbatim>\<open>filePath || `angular-resource-output-${this.outputPathCounter++}.css`\<close>: the
  counter is read here and incremented in \<open>compile\<close>, only when the file path is
  falsy.
\<close>

definition outputName :: "'w loader \<Rightarrow> jsstring option \<Rightarrow> jsstring" where
  "outputName s filePath =
     orElse filePath
       (js ''angular-resource-output-'' @ decimal (outputPathCounter s) @ js ''.css'')"

definition compile ::
  "'w webpack \<Rightarrow> 'w loader \<Rightarrow> jsstring option \<Rightarrow> jsstring option \<Rightarrow> jsstring option
     \<Rightarrow> (error + CompilationOutput) \<times> 'w loader" where
  "compile env s filePath data mimeType =
     (case parentCompilation s of
        None \<Rightarrow> (Inl MissingParentContext, s)
      | Some parent \<Rightarrow>
          (case sanityCheck filePath of
             Some rejection \<Rightarrow> (Inl rejection, s)
           | None \<Rightarrow>
               (let outputFilePath = outputName s filePath;
                    s1 = (if truthy filePath then s
                          else s\<lparr>outputPathCounter := outputPathCounter s + 1\<rparr>);
                    (outcome, parent') =
                      runAsChild env parent
                        (childRequest outputFilePath filePath data mimeType);
                    s2 = s1\<lparr>parentCompilation := Some parent'\<rparr>
                in (case outcome of
                      ChildError e \<Rightarrow> (Inl e, s2)
                    | NoChildCompilation \<Rightarrow> (Inl UnknownChildCompilationError, s2)
                    | ChildCompilation compilation \<Rightarrow>
                        (let (finalContent, finalMap, childCompilation) =
                               (if isWebpackFiveOrHigher env
                                then captureAssets outputFilePath
                                       (additionalAssets env outputFilePath compilation)
                                else captureAssets outputFilePath
                                       (additionalAssets env outputFilePath compilation))
                         in (Inr (resolveOutput finalContent finalMap childCompilation),
                             saveDependencies env s2 filePath
                               (child_fileDependencies childCompilation)))))))"

subsection \<open>get and process\<close>

definition get :: "'w webpack \<Rightarrow> 'w loader \<Rightarrow> jsstring \<Rightarrow> (error + jsstring) \<times> 'w loader" where
  "get env s filePath =
     (let normalizedFile = normalizePath env filePath
      in case cache s normalizedFile of
           Some compilationResult \<Rightarrow> (Inr (content compilationResult), s)
         | None \<Rightarrow>
             (case compile env s (Some filePath) None None of
                (Inl e, s') \<Rightarrow> (Inl e, s')
              | (Inr compilationResult, s') \<Rightarrow>
                  (Inr (content compilationResult),
                   if success compilationResult
                   then s'\<lparr>cache := (cache s')(normalizedFile \<mapsto> compilationResult)\<rparr>
                   else s')))"

definition process ::
  "'w webpack \<Rightarrow> 'w loader \<Rightarrow> jsstring \<Rightarrow> jsstring \<Rightarrow> (error + jsstring) \<times> 'w loader" where
  "process env s data mimeType =
     (if length (trim data) = 0 then (Inr [], s)
      else case compile env s None (Some data) (Some mimeType) of
             (Inl e, s') \<Rightarrow> (Inl e, s')
           | (Inr compilationResult, s') \<Rightarrow> (Inr (content compilationResult), s'))"

section \<open>An example build\<close>

text \<open>
  Concrete collaborators on which the theorems below are instantiated. The parent
  compilation is the number of child compilers run on it so far. The normaliser
  turns backslashes into slashes; the child compiler emits one asset under the
  requested file name and reports that file and \<^verbatim>\<open>_vars.scss\<close> as read; the
  build of \<^verbatim>\<open>bad.scss\<close> has an error; the assets of \<^verbatim>\<open>num.css\<close> and
  \<^verbatim>\<open>throw.css\<close> evaluate to a number and to an exception.
\<close>

definition exampleNormalizePath :: "jsstring \<Rightarrow> jsstring" where
  "exampleNormalizePath p = map (\<lambda>c. if c = 0x5C then 0x2F else c) p"

definition exampleSandbox :: "jsstring \<Rightarrow> jsstring \<Rightarrow> vm_outcome" where
  "exampleSandbox source fname =
     (if source = js ''N'' then VmDone (JNumber 5)
      else if source = js ''T'' then VmThrows
      else VmDone (JObject (JString (js ''css''))))"

definition exampleChild :: "nat \<Rightarrow> child_request \<Rightarrow> child_outcome \<times> nat" where
  "exampleChild parent request =
     (ChildCompilation
        \<lparr>assets =
           [filename request \<mapsto>
              (if filename request = js ''num.css'' then js ''N''
               else if filename request = js ''throw.css'' then js ''T''
               else js ''S'')],
         errors =
           (if filename request = js ''bad.scss'' then [NestedCompilationError (js ''bad'')]
            else []),
         child_fileDependencies = [filename request, js ''_vars.scss'']\<rparr>,
      Suc parent)"

definition exampleWebpack :: "nat webpack" where
  "exampleWebpack =
     \<lparr>normalizePath = exampleNormalizePath, isWebpackFiveOrHigher = True,
      runInNewContext = exampleSandbox, runAsChild = exampleChild\<rparr>"

definition exampleLoader :: "nat loader" where
  "exampleLoader = update exampleWebpack new_loader 0 None"

text \<open>
  A child compiler whose first run reads \<^verbatim>\<open>A\<close> and \<^verbatim>\<open>B\<close> and whose later
  runs read \<^verbatim>\<open>B\<close> and \<^verbatim>\<open>C\<close>: the resource stopped importing \<^verbatim>\<open>A\<close>.
  \<open>exampleRerecorded\<close> is the loader after two compilations of \<^verbatim>\<open>R\<close> with it.
\<close>

definition exampleChild2 :: "nat \<Rightarrow> child_request \<Rightarrow> child_outcome \<times> nat" where
  "exampleChild2 parent request =
     (ChildCompilation
        \<lparr>assets = [filename request \<mapsto> js ''S''],
         errors = [],
         child_fileDependencies =
           (if parent = 0 then [js ''A'', js ''B''] else [js ''B'', js ''C''])\<rparr>,
      Suc parent)"

definition exampleWebpack2 :: "nat webpack" where
  "exampleWebpack2 = exampleWebpack\<lparr>runAsChild := exampleChild2\<rparr>"

definition exampleRerecorded :: "nat loader" where
  "exampleRerecorded =
     snd (compile exampleWebpack2
            (snd (compile exampleWebpack2 exampleLoader (Some (js ''R'')) None None))
            (Some (js ''R'')) None None)"

text \<open>The loader after the failed compilation of \<^verbatim>\<open>bad.scss\<close>.\<close>

definition exampleFailed :: "nat loader" where
  "exampleFailed = snd (compile exampleWebpack exampleLoader (Some (js ''bad.scss'')) None None)"

text \<open>The loader after the first \<^verbatim>\<open>get('button.scss')\<close>.\<close>

definition exampleCompiled :: "nat loader" where
  "exampleCompiled = snd (get exampleWebpack exampleLoader (js ''button.scss''))"

text \<open>
  The same build with the child compiler out of order: every run ends without a
  compilation. A call that ran it would fail.
\<close>

definition exampleChildDown :: "nat \<Rightarrow> child_request \<Rightarrow> child_outcome \<times> nat" where
  "exampleChildDown parent request = (NoChildCompilation, Suc parent)"

definition exampleWebpackDown :: "nat webpack" where
  "exampleWebpackDown = exampleWebpack\<lparr>runAsChild := exampleChildDown\<rparr>"

section \<open>Auxiliary facts\<close>

subsection \<open>Sets and strings\<close>

lemma set_Set_add: "set (Set_add xs x) = insert x (set xs)"
  by (auto simp: Set_add_def)

lemma set_fold_Set_add: "set (fold (\<lambda>x acc. Set_add acc x) xs acc) = set xs \<union> set acc"
  by (induction xs arbitrary: acc) (auto simp: set_Set_add)

lemma set_new_Set: "set (new_Set xs) = set xs"
  by (simp add: new_Set_def set_fold_Set_add)

lemma all_dropWhile: "(\<forall>x\<in>set (dropWhile P xs). P x) \<longleftrightarrow> (\<forall>x\<in>set xs. P x)"
  by (induction xs) auto

lemma trim_blank: "trim data = [] \<longleftrightarrow> (\<forall>c\<in>set data. isWhiteSpace c)"
  by (simp add: trim_def dropWhile_eq_Nil_conv all_dropWhile)

subsection \<open>The eviction loops of update\<close>

lemma fold_evict:
  "fold (evict env) rs s =
     s\<lparr>cache := (\<lambda>k. if k \<in> normalizePath env ` set rs then None else cache s k),
       modifiedResources := fold (\<lambda>x acc. Set_add acc x) rs (modifiedResources s)\<rparr>"
proof (induction rs arbitrary: s)
  case Nil
  show ?case by simp
next
  case (Cons r rs)
  show ?case
    unfolding fold_Cons o_apply Cons.IH
    by (auto simp: evict_def fun_eq_iff)
qed

lemma getAffected_fold_evict:
  "getAffectedResources (fold (evict env) rs s) f = getAffectedResources s f"
  by (simp add: getAffectedResources_def fold_evict)

lemma fold_changed:
  "fold (\<lambda>changedFile st. fold (evict env) (getAffectedResources st changedFile) st) files s = s'
   \<Longrightarrow> reverseDependencies s' = reverseDependencies s
     \<and> fileDependencies s' = fileDependencies s
     \<and> parentCompilation s' = parentCompilation s
     \<and> outputPathCounter s' = outputPathCounter s
     \<and> set (modifiedResources s')
         = set (modifiedResources s) \<union> (\<Union>f\<in>set files. set (getAffectedResources s f))
     \<and> cache s'
         = (\<lambda>k. if k \<in> normalizePath env ` (\<Union>f\<in>set files. set (getAffectedResources s f))
                then None else cache s k)"
proof (induction files arbitrary: s s')
  case Nil
  then show ?case by auto
next
  case (Cons f files)
  let ?s1 = "fold (evict env) (getAffectedResources s f) s"
  from Cons.prems
  have step: "fold (\<lambda>changedFile st. fold (evict env) (getAffectedResources st changedFile) st)
                files ?s1 = s'"
    by simp
  note ih = Cons.IH [OF step]
  have g: "\<And>x. getAffectedResources ?s1 x = getAffectedResources s x"
    by (rule getAffected_fold_evict)
  show ?case
    using ih unfolding g
    by (auto simp: fold_evict set_fold_Set_add fun_eq_iff)
qed

subsection \<open>What compile leaves alone\<close>

lemma saveDependencies_frame [simp]:
  "cache (saveDependencies env s fp deps) = cache s"
  "modifiedResources (saveDependencies env s fp deps) = modifiedResources s"
  "parentCompilation (saveDependencies env s fp deps) = parentCompilation s"
  "outputPathCounter (saveDependencies env s fp deps) = outputPathCounter s"
  by (simp_all add: saveDependencies_def split: option.splits)

lemma saveDependencies_None [simp]: "saveDependencies env s None deps = s"
  by (simp add: saveDependencies_def)

lemma compile_cache: "cache (snd (compile env s fp data mime)) = cache s"
  by (simp add: compile_def Let_def split: option.splits prod.splits child_outcome.splits)

lemma compile_inline_graph:
  "fileDependencies (snd (compile env s None data mime)) = fileDependencies s \<and>
   reverseDependencies (snd (compile env s None data mime)) = reverseDependencies s"
  by (simp add: compile_def Let_def split: option.splits prod.splits child_outcome.splits)

lemma compile_runs_child:
  assumes "parentCompilation s = Some parent" and "sanityCheck fp = None"
  shows "parentCompilation (snd (compile env s fp data mime)) =
           Some (snd (runAsChild env parent (childRequest (outputName s fp) fp data mime)))"
  using assms
  by (simp add: compile_def Let_def split: option.splits prod.splits child_outcome.splits)

subsection \<open>compile, step by step\<close>

lemma outputName_cache [simp]: "outputName (s\<lparr>cache := c\<rparr>) fp = outputName s fp"
  by (simp add: outputName_def)

lemma compile_cache_indep:
  "compile env (s\<lparr>cache := c\<rparr>) fp data mime =
     (fst (compile env s fp data mime), (snd (compile env s fp data mime))\<lparr>cache := c\<rparr>)"
proof (cases "parentCompilation s")
  case None
  then show ?thesis by (simp add: compile_def)
next
  case (Some parent)
  show ?thesis
  proof (cases "sanityCheck fp")
    case (Some rejection)
    with \<open>parentCompilation s = Some parent\<close> show ?thesis
      by (simp add: compile_def)
  next
    case None
    obtain outcome parent' where
      r: "runAsChild env parent (childRequest (outputName s fp) fp data mime) = (outcome, parent')"
      by (cases "runAsChild env parent (childRequest (outputName s fp) fp data mime)")
    show ?thesis
      using None \<open>parentCompilation s = Some parent\<close> r
      by (cases outcome)
         (simp_all add: compile_def Let_def saveDependencies_def split: prod.splits option.splits)
  qed
qed

lemma compile_Inr_bound:
  assumes "compile env s fp data mime = (Inr out, s1)"
  shows "sanityCheck fp = None \<and> (\<exists>parent. parentCompilation s1 = Some parent)"
proof (cases "parentCompilation s")
  case None
  with assms show ?thesis by (simp add: compile_def)
next
  case (Some parent)
  show ?thesis
  proof (cases "sanityCheck fp")
    case (Some rejection)
    with assms \<open>parentCompilation s = Some parent\<close> show ?thesis
      by (simp add: compile_def)
  next
    case None
    obtain outcome parent' where
      r: "runAsChild env parent (childRequest (outputName s fp) fp data mime) = (outcome, parent')"
      by (cases "runAsChild env parent (childRequest (outputName s fp) fp data mime)")
    show ?thesis
      using assms None \<open>parentCompilation s = Some parent\<close> r
      by (cases outcome) (auto simp: compile_def Let_def split: prod.splits)
  qed
qed

lemma get_miss:
  "cache s (normalizePath env K) = None \<Longrightarrow>
   get env s K =
     (case compile env s (Some K) None None of
        (Inl e, s') \<Rightarrow> (Inl e, s')
      | (Inr r, s') \<Rightarrow>
          (Inr (content r),
           if success r then s'\<lparr>cache := (cache s')(normalizePath env K \<mapsto> r)\<rparr> else s'))"
  by (simp add: get_def)

lemma get_miss_parent:
  "cache s (normalizePath env K) = None \<Longrightarrow>
   parentCompilation (snd (get env s K)) = parentCompilation (snd (compile env s (Some K) None None))"
  by (cases "compile env s (Some K) None None") (auto simp: get_miss split: sum.splits)

lemma additionalAssets_deps [simp]:
  "child_fileDependencies (additionalAssets env out c) = child_fileDependencies c"
  by (simp add: additionalAssets_def split: option.splits sum.splits)

lemma compile_completed:
  assumes "parentCompilation s = Some parent"
    and "sanityCheck fp = None"
    and "runAsChild env parent (childRequest (outputName s fp) fp data mime)
           = (ChildCompilation c, parent')"
  shows "compile env s fp data mime =
     (Inr (resolveOutput
             (assets (additionalAssets env (outputName s fp) c) (outputName s fp))
             (assets (additionalAssets env (outputName s fp) c) (outputName s fp @ js ''.map''))
             (additionalAssets env (outputName s fp) c)),
      saveDependencies env
        ((if truthy fp then s else s\<lparr>outputPathCounter := outputPathCounter s + 1\<rparr>)
           \<lparr>parentCompilation := Some parent'\<rparr>)
        fp (child_fileDependencies c))"
  using assms
  by (simp add: compile_def Let_def captureAssets_def resolveOutput_def)

subsection \<open>The dependency maps as sets\<close>

lemma set_getAffectedResources:
  "set (getAffectedResources s k) = entries (reverseDependencies s) k"
  by (simp add: getAffectedResources_def entries_def split: option.splits)

lemma set_getResourceDependencies:
  "set (getResourceDependencies s r) = entries (fileDependencies s) r"
  by (simp add: getResourceDependencies_def entries_def split: option.splits)

lemma entries_addReverse:
  "entries (addReverse env fp f m) k =
     entries m k \<union> (if k = normalizePath env f then {fp} else {})"
  by (auto simp: addReverse_def entries_def Let_def set_Set_add set_new_Set split: option.splits)

lemma entries_fold_addReverse:
  "entries (fold (addReverse env fp) deps m) k =
     entries m k \<union> (if k \<in> normalizePath env ` set deps then {fp} else {})"
  by (induction deps arbitrary: m) (auto simp: entries_addReverse)

lemma saveDependencies_forward:
  "fp \<noteq> [] \<Longrightarrow>
   entries (fileDependencies (saveDependencies env s (Some fp) deps)) r =
     (if r = fp then set deps else entries (fileDependencies s) r)"
  by (simp add: saveDependencies_def entries_def set_new_Set)

lemma saveDependencies_reverse:
  "fp \<noteq> [] \<Longrightarrow>
   entries (reverseDependencies (saveDependencies env s (Some fp) deps)) k =
     entries (reverseDependencies s) k \<union> (if k \<in> normalizePath env ` set deps then {fp} else {})"
  by (simp add: saveDependencies_def entries_fold_addReverse)

lemma forwardInReverse_entries:
  "forwardInReverse env s \<longleftrightarrow>
     (\<forall>R F. F \<in> entries (fileDependencies s) R
        \<longrightarrow> R \<in> entries (reverseDependencies s) (normalizePath env F))"
  by (simp add: forwardInReverse_def set_getResourceDependencies set_getAffectedResources)

lemma forwardInReverse_cong:
  "fileDependencies s' = fileDependencies s \<Longrightarrow>
   reverseDependencies s' = reverseDependencies s \<Longrightarrow>
   forwardInReverse env s' = forwardInReverse env s"
  by (simp add: forwardInReverse_entries)

lemma forwardInReverse_new: "forwardInReverse env new_loader"
  by (simp add: forwardInReverse_entries new_loader_def entries_def)

lemma forwardInReverse_saveDependencies:
  assumes "forwardInReverse env s"
  shows "forwardInReverse env (saveDependencies env s fp deps)"
proof (cases fp)
  case None
  with assms show ?thesis by simp
next
  case (Some p)
  show ?thesis
  proof (cases "p = []")
    case True
    with Some assms show ?thesis by (simp add: saveDependencies_def)
  next
    case False
    with assms show ?thesis
      unfolding Some forwardInReverse_entries
      by (auto simp: saveDependencies_forward saveDependencies_reverse split: if_splits)
  qed
qed

lemma compile_graph:
  "\<exists>s0 deps. fileDependencies s0 = fileDependencies s \<and>
      reverseDependencies s0 = reverseDependencies s \<and>
      (snd (compile env s fp data mime) = s0 \<or>
       snd (compile env s fp data mime) = saveDependencies env s0 fp deps)"
proof (cases "parentCompilation s")
  case None
  then have "snd (compile env s fp data mime) = s" by (simp add: compile_def)
  then show ?thesis by blast
next
  case (Some parent)
  show ?thesis
  proof (cases "sanityCheck fp")
    case (Some rejection)
    with \<open>parentCompilation s = Some parent\<close>
    have "snd (compile env s fp data mime) = s" by (simp add: compile_def)
    then show ?thesis by blast
  next
    case None
    obtain outcome parent' where
      r: "runAsChild env parent (childRequest (outputName s fp) fp data mime) = (outcome, parent')"
      by (cases "runAsChild env parent (childRequest (outputName s fp) fp data mime)")
    let ?s2 = "(if truthy fp then s else s\<lparr>outputPathCounter := outputPathCounter s + 1\<rparr>)
           \<lparr>parentCompilation := Some parent'\<rparr>"
    have f: "fileDependencies ?s2 = fileDependencies s"
      "reverseDependencies ?s2 = reverseDependencies s"
      by simp_all
    show ?thesis
    proof (cases outcome)
      case (ChildCompilation c)
      have "snd (compile env s fp data mime) = saveDependencies env ?s2 fp (child_fileDependencies c)"
        using compile_completed [OF \<open>parentCompilation s = Some parent\<close> None r [unfolded ChildCompilation]]
        by simp
      with f show ?thesis by blast
    next
      case (ChildError e)
      have "snd (compile env s fp data mime) = ?s2"
        using None \<open>parentCompilation s = Some parent\<close> r ChildError
        by (simp add: compile_def Let_def)
      with f show ?thesis by blast
    next
      case NoChildCompilation
      have "snd (compile env s fp data mime) = ?s2"
        using None \<open>parentCompilation s = Some parent\<close> r NoChildCompilation
        by (simp add: compile_def Let_def)
      with f show ?thesis by blast
    qed
  qed
qed

lemma forwardInReverse_compile:
  assumes "forwardInReverse env s"
  shows "forwardInReverse env (snd (compile env s fp data mime))"
proof -
  from compile_graph [of s env fp data mime] obtain s0 deps where
    f: "fileDependencies s0 = fileDependencies s" "reverseDependencies s0 = reverseDependencies s"
    and d: "snd (compile env s fp data mime) = s0 \<or>
       snd (compile env s fp data mime) = saveDependencies env s0 fp deps"
    by blast
  from assms have s0: "forwardInReverse env s0"
    unfolding forwardInReverse_cong [OF f] .
  from d show ?thesis
  proof
    assume "snd (compile env s fp data mime) = s0"
    with s0 show ?thesis by simp
  next
    assume "snd (compile env s fp data mime) = saveDependencies env s0 fp deps"
    with forwardInReverse_saveDependencies [OF s0] show ?thesis by simp
  qed
qed

lemma get_state:
  "snd (get env s fp) = s \<or> snd (get env s fp) = snd (compile env s (Some fp) None None)
   \<or> (\<exists>c. snd (get env s fp) = (snd (compile env s (Some fp) None None))\<lparr>cache := c\<rparr>)"
proof (cases "cache s (normalizePath env fp)")
  case (Some r)
  then show ?thesis by (simp add: get_def)
next
  case None
  obtain a b where c: "compile env s (Some fp) None None = (a, b)"
    by (cases "compile env s (Some fp) None None")
  show ?thesis
  proof (cases a)
    case (Inl e)
    with None c show ?thesis by (simp add: get_def)
  next
    case (Inr r)
    with None c show ?thesis by (cases "success r") (simp_all add: get_def, blast)
  qed
qed

lemma forwardInReverse_get:
  assumes "forwardInReverse env s"
  shows "forwardInReverse env (snd (get env s fp))"
proof -
  let ?c = "compile env s (Some fp) None None"
  have c: "forwardInReverse env (snd ?c)"
    using assms by (rule forwardInReverse_compile)
  have "forwardInReverse env ((snd ?c)\<lparr>cache := c\<rparr>) = forwardInReverse env (snd ?c)" for c
    by (rule forwardInReverse_cong) simp_all
  with c have cc: "forwardInReverse env ((snd ?c)\<lparr>cache := c\<rparr>)" for c
    by simp
  from get_state [of env s fp] show ?thesis
    using assms c cc by (elim disjE exE) simp_all
qed

lemma forwardInReverse_update:
  assumes "forwardInReverse env s"
  shows "forwardInReverse env (update env s parent changedFiles)"
proof (cases changedFiles)
  case None
  have "forwardInReverse env (update env s parent None) = forwardInReverse env s"
    by (rule forwardInReverse_cong) (simp_all add: update_def)
  with assms None show ?thesis by simp
next
  case (Some files)
  let ?s1 = "s\<lparr>parentCompilation := Some parent, modifiedResources := []\<rparr>"
  have u: "fold (\<lambda>changedFile st. fold (evict env) (getAffectedResources st changedFile) st)
             files ?s1 = update env s parent (Some files)"
    by (simp add: update_def)
  have "forwardInReverse env (update env s parent (Some files)) = forwardInReverse env s"
    using fold_changed [OF u] by (intro forwardInReverse_cong) simp_all
  with assms Some show ?thesis by simp
qed

lemma forwardInReverse_process:
  assumes "forwardInReverse env s"
  shows "forwardInReverse env (snd (process env s data mimeType))"
proof -
  let ?c = "compile env s None (Some data) (Some mimeType)"
  have "snd (process env s data mimeType) = s \<or> snd (process env s data mimeType) = snd ?c"
    by (cases ?c) (auto simp: process_def split: sum.splits)
  with assms forwardInReverse_compile [OF assms, of None "Some data" "Some mimeType"]
  show ?thesis by auto
qed

lemma saveDependencies_grows:
  "set (getAffectedResources s k)
     \<subseteq> set (getAffectedResources (saveDependencies env s fp files) k)"
proof (cases fp)
  case None
  then show ?thesis by simp
next
  case (Some p)
  show ?thesis
  proof (cases "p = []")
    case True
    with Some show ?thesis by (simp add: saveDependencies_def)
  next
    case False
    with Some show ?thesis
      by (simp add: set_getAffectedResources saveDependencies_reverse)
  qed
qed

lemma get_miss_fst:
  "cache s (normalizePath env K) = None \<Longrightarrow>
   fst (compile env s (Some K) None None) = Inr out \<Longrightarrow>
   fst (get env s K) = Inr (content out) \<and>
   cache (snd (get env s K)) =
     (if success out then (cache s)(normalizePath env K \<mapsto> out) else cache s)"
  using compile_cache [of env s "Some K" None None]
  by (cases "compile env s (Some K) None None") (auto simp: get_miss)

subsection \<open>The example build, evaluated\<close>

lemmas example_defs =
  exampleWebpack_def exampleChild_def exampleSandbox_def exampleNormalizePath_def

lemmas loader_defs =
  get_def compile_def process_def update_def new_loader_def outputName_def childRequest_def
  additionalAssets_def captureAssets_def evaluate_def resolveOutput_def saveDependencies_def
  addReverse_def new_Set_def Set_add_def getAffectedResources_def getResourceDependencies_def
  getModifiedResourceFiles_def Let_def

lemma exampleLoader_eq:
  "exampleLoader =
     \<lparr>parentCompilation = Some 0, fileDependencies = Map.empty,
      reverseDependencies = Map.empty, cache = Map.empty,
      modifiedResources = [], outputPathCounter = 1\<rparr>"
  by (simp add: exampleLoader_def update_def new_loader_def)

lemma exampleCompiled_eq:
  "exampleCompiled =
     \<lparr>parentCompilation = Some 1,
      fileDependencies = [js ''button.scss'' \<mapsto> [js ''button.scss'', js ''_vars.scss'']],
      reverseDependencies =
        [js ''button.scss'' \<mapsto> [js ''button.scss''],
         js ''_vars.scss'' \<mapsto> [js ''button.scss'']],
      cache =
        [js ''button.scss'' \<mapsto> \<lparr>content = js ''css'', map_opt = None, success = True\<rparr>],
      modifiedResources = [], outputPathCounter = 1\<rparr>"
  by (simp add: exampleCompiled_def exampleLoader_eq loader_defs example_defs js_def)

lemma exampleChild_parent: "snd (runAsChild exampleWebpack parent r) = Suc parent"
  by (simp add: exampleWebpack_def exampleChild_def)

lemma exampleLoader_parent: "parentCompilation exampleLoader = Some 0"
  by (simp add: exampleLoader_eq)

lemma exampleLoader_cache: "cache exampleLoader k = None"
  by (simp add: exampleLoader_eq)

lemma exampleFailed_eq:
  "exampleFailed =
     \<lparr>parentCompilation = Some 1,
      fileDependencies = [js ''bad.scss'' \<mapsto> [js ''bad.scss'', js ''_vars.scss'']],
      reverseDependencies =
        [js ''bad.scss'' \<mapsto> [js ''bad.scss''], js ''_vars.scss'' \<mapsto> [js ''bad.scss'']],
      cache = Map.empty, modifiedResources = [], outputPathCounter = 1\<rparr>"
  by (simp add: exampleFailed_def exampleLoader_eq loader_defs example_defs js_def)

lemma exampleFailed_output:
  "fst (compile exampleWebpack exampleLoader (Some (js ''bad.scss'')) None None)
     = Inr \<lparr>content = js ''css'', map_opt = None, success = False\<rparr>"
  by (simp add: exampleLoader_eq loader_defs example_defs js_def)

lemma blank3: "\<forall>c\<in>set (js ''   ''). isWhiteSpace c"
  by (simp add: js_def isWhiteSpace_def)

lemma nonblank: "\<not> (\<forall>c\<in>set (js ''a{}''). isWhiteSpace c)"
  by (simp add: js_def isWhiteSpace_def)

lemma exampleCompile_button:
  "compile exampleWebpack exampleLoader (Some (js ''button.scss'')) None None =
     (Inr \<lparr>content = js ''css'', map_opt = None, success = True\<rparr>,
      exampleCompiled\<lparr>cache := Map.empty\<rparr>)"
  by (simp add: exampleCompiled_eq exampleLoader_eq
      compile_def outputName_def childRequest_def additionalAssets_def captureAssets_def
      evaluate_def resolveOutput_def saveDependencies_def addReverse_def new_Set_def Set_add_def
      Let_def example_defs js_def)

lemma exampleRerecorded_eq:
  "exampleRerecorded =
     \<lparr>parentCompilation = Some 2,
      fileDependencies = [js ''R'' \<mapsto> [js ''B'', js ''C'']],
      reverseDependencies =
        [js ''A'' \<mapsto> [js ''R''], js ''B'' \<mapsto> [js ''R''], js ''C'' \<mapsto> [js ''R'']],
      cache = Map.empty, modifiedResources = [], outputPathCounter = 1\<rparr>"
  by (simp add: exampleRerecorded_def exampleWebpack2_def exampleChild2_def exampleLoader_eq
      loader_defs example_defs js_def)

lemma forwardInReverse_exampleLoader: "forwardInReverse exampleWebpack exampleLoader"
  unfolding exampleLoader_def by (intro forwardInReverse_update forwardInReverse_new)

section \<open>Invalidation\<close>

text \<open>
  Claim C2. An incremental update rebuilds the modified set from nothing: after
  \<open>update\<close> with a list of changed files, the modified resources are exactly the
  dependents that the reverse map holds for the changed files, whatever the set held
  before; the cache has lost exactly the normalised keys of these resources and kept
  every other entry. A changed file without an entry in the reverse map evicts
  nothing: the cache is as before and the modified set is empty. \<open>update\<close> has no
  failing branch.
\<close>

theorem update_incremental:
  "set (getModifiedResourceFiles (update env s parent (Some changedFiles)))
     = (\<Union>f\<in>set changedFiles. set (getAffectedResources s f)) \<and>
   (\<forall>k. cache (update env s parent (Some changedFiles)) k
      = (if k \<in> normalizePath env ` (\<Union>f\<in>set changedFiles. set (getAffectedResources s f))
         then None else cache s k)) \<and>
   ((\<forall>f\<in>set changedFiles. reverseDependencies s f = None) \<longrightarrow>
      cache (update env s parent (Some changedFiles)) = cache s \<and>
      getModifiedResourceFiles (update env s parent (Some changedFiles)) = [])"
proof -
  let ?s1 = "s\<lparr>parentCompilation := Some parent, modifiedResources := []\<rparr>"
  let ?s' = "update env s parent (Some changedFiles)"
  let ?E = "\<Union>f\<in>set changedFiles. set (getAffectedResources s f)"
  have u: "?s' = fold (\<lambda>changedFile st. fold (evict env) (getAffectedResources st changedFile) st)
                   changedFiles ?s1"
    by (simp add: update_def)
  have g: "\<And>f. getAffectedResources ?s1 f = getAffectedResources s f"
    by (simp add: getAffectedResources_def)
  note fc = fold_changed [OF u [symmetric], unfolded g]
  have m: "set (modifiedResources ?s') = ?E"
    using fc by simp
  have c: "cache ?s' = (\<lambda>k. if k \<in> normalizePath env ` ?E then None else cache s k)"
    using fc by (simp cong: if_cong)
  have e: "(\<forall>f\<in>set changedFiles. reverseDependencies s f = None) \<Longrightarrow> ?E = {}"
    by (auto simp: getAffectedResources_def)
  show ?thesis
    using m c e by (auto simp: getModifiedResourceFiles_def)
qed

text \<open>
  On the example: once \<^verbatim>\<open>button.scss\<close> is compiled and cached, a change of
  \<^verbatim>\<open>_vars.scss\<close> evicts it and reports it as modified; a change of the unrelated
  \<^verbatim>\<open>other.scss\<close> evicts nothing.
\<close>

theorem update_incremental_witness:
  "set (getModifiedResourceFiles
          (update exampleWebpack exampleCompiled 1 (Some [js ''_vars.scss''])))
     = {js ''button.scss''} \<and>
   cache (update exampleWebpack exampleCompiled 1 (Some [js ''_vars.scss'']))
     (js ''button.scss'') = None \<and>
   cache (update exampleWebpack exampleCompiled 1 (Some [js ''other.scss'']))
     = cache exampleCompiled \<and>
   getModifiedResourceFiles
     (update exampleWebpack exampleCompiled 1 (Some [js ''other.scss''])) = []"
  using update_incremental [of exampleWebpack exampleCompiled 1 "[js ''_vars.scss'']"]
    update_incremental [of exampleWebpack exampleCompiled 1 "[js ''other.scss'']"]
  by (simp add: exampleCompiled_eq getAffectedResources_def example_defs js_def)

text \<open>
  Claim C5. A full rebuild, \<open>update\<close> without changed files, empties the cache and
  the modified set and leaves the forward and the reverse dependency map as they
  were.
\<close>

theorem update_full_rebuild:
  "cache (update env s parent None) = Map.empty \<and>
   getModifiedResourceFiles (update env s parent None) = [] \<and>
   fileDependencies (update env s parent None) = fileDependencies s \<and>
   reverseDependencies (update env s parent None) = reverseDependencies s"
  by (simp add: update_def getModifiedResourceFiles_def)

section \<open>Inline resources\<close>

text \<open>
  Claim C10. \<open>process\<close> writes neither the cache nor the dependency maps: for
  every inline input the three are after the call what they were before it, whatever
  the child compiler does.
\<close>

theorem process_frame:
  "cache (snd (process env s data mimeType)) = cache s \<and>
   fileDependencies (snd (process env s data mimeType)) = fileDependencies s \<and>
   reverseDependencies (snd (process env s data mimeType)) = reverseDependencies s"
proof -
  let ?c = "compile env s None (Some data) (Some mimeType)"
  have "cache (snd ?c) = cache s"
    by (rule compile_cache)
  moreover have "fileDependencies (snd ?c) = fileDependencies s"
    and "reverseDependencies (snd ?c) = reverseDependencies s"
    using compile_inline_graph [of env s "Some data" "Some mimeType"] by simp_all
  ultimately show ?thesis
    by (cases ?c) (auto simp: process_def split: sum.splits)
qed

text \<open>
  Claim C9. \<open>process\<close> on an input of white space only, the empty string
  included, returns the empty string and the loader as it was: no child compiler has
  run on the parent compilation. On any other input, with a parent compilation bound
  by \<open>update\<close>, the parent compilation after the call is the one that the child
  compiler returns for the inline request: the driver has run. The cache is neither
  read nor written: with any other cache in place of the loader's, the call returns
  the same result and leaves that cache as it is.
\<close>

theorem process_short_circuit:
  "((\<forall>c\<in>set data. isWhiteSpace c) \<longrightarrow> process env s data mimeType = (Inr [], s)) \<and>
   (\<not> (\<forall>c\<in>set data. isWhiteSpace c) \<and> parentCompilation s = Some parent \<longrightarrow>
      parentCompilation (snd (process env s data mimeType)) =
        Some (snd (runAsChild env parent
                (childRequest (outputName s None) None (Some data) (Some mimeType))))) \<and>
   process env (s\<lparr>cache := c\<rparr>) data mimeType =
     (fst (process env s data mimeType), (snd (process env s data mimeType))\<lparr>cache := c\<rparr>)"
proof (intro conjI impI)
  assume "\<forall>c\<in>set data. isWhiteSpace c"
  then show "process env s data mimeType = (Inr [], s)"
    by (simp add: process_def trim_blank)
next
  assume a: "\<not> (\<forall>c\<in>set data. isWhiteSpace c) \<and> parentCompilation s = Some parent"
  let ?c = "compile env s None (Some data) (Some mimeType)"
  from a have nb: "length (trim data) \<noteq> 0"
    by (simp add: trim_blank)
  have "snd (process env s data mimeType) = snd ?c"
    using nb by (cases ?c) (auto simp: process_def split: sum.splits)
  moreover have "parentCompilation (snd ?c) =
      Some (snd (runAsChild env parent
              (childRequest (outputName s None) None (Some data) (Some mimeType))))"
    using a by (intro compile_runs_child) simp_all
  ultimately show "parentCompilation (snd (process env s data mimeType)) =
      Some (snd (runAsChild env parent
              (childRequest (outputName s None) None (Some data) (Some mimeType))))"
    by simp
next
  show "process env (s\<lparr>cache := c\<rparr>) data mimeType =
     (fst (process env s data mimeType), (snd (process env s data mimeType))\<lparr>cache := c\<rparr>)"
    by (cases "compile env s None (Some data) (Some mimeType)")
       (auto simp: process_def compile_cache_indep split: sum.splits)
qed

theorem process_short_circuit_witness:
  "process exampleWebpack exampleLoader (js ''   '') (js ''text/css'') = (Inr [], exampleLoader) \<and>
   process exampleWebpack exampleLoader [] (js ''text/css'') = (Inr [], exampleLoader) \<and>
   parentCompilation (snd (process exampleWebpack exampleLoader (js ''a{}'') (js ''text/css'')))
     = Some 1"
proof -
  note a = process_short_circuit [where data = "js ''   ''" and env = exampleWebpack
      and s = exampleLoader and mimeType = "js ''text/css''"]
  note b = process_short_circuit [where data = "[]" and env = exampleWebpack
      and s = exampleLoader and mimeType = "js ''text/css''"]
  note c = process_short_circuit [where data = "js ''a{}''" and env = exampleWebpack
      and s = exampleLoader and mimeType = "js ''text/css''" and parent = 0]
  have 1: "process exampleWebpack exampleLoader (js ''   '') (js ''text/css'') = (Inr [], exampleLoader)"
    using a blank3 by blast
  have 2: "process exampleWebpack exampleLoader [] (js ''text/css'') = (Inr [], exampleLoader)"
    using b by simp
  have 3: "parentCompilation (snd (process exampleWebpack exampleLoader (js ''a{}'') (js ''text/css'')))
     = Some (snd (runAsChild exampleWebpack 0
                (childRequest (outputName exampleLoader None) None (Some (js ''a{}'')) (Some (js ''text/css'')))))"
    using c nonblank exampleLoader_parent by blast
  have 4: "snd (runAsChild exampleWebpack 0 r) = 1" for r
    by (simp add: exampleWebpack_def exampleChild_def)
  show ?thesis
    using 1 2 3 unfolding 4 by simp
qed

section \<open>The cache\<close>

text \<open>
  Claim C3. When a resource is not cached and its compilation succeeds, the first
  \<open>get\<close> returns the compiled content and stores the output in the cache under
  the normalised path. A second \<open>get\<close> right after it returns the same content
  and the loader unchanged, parent compilation included, and it does so whatever the
  child compiler and the sandbox would do now: with any other collaborators that
  normalise paths the same way the second call gives the same answer. The content
  comes from the cache entry and the child compiler is not run.
\<close>

theorem get_cache_hit:
  assumes "cache s (normalizePath env R) = None"
    and "compile env s (Some R) None None = (Inr out, s1)"
    and "success out"
  shows "get env s R
           = (Inr (content out), s1\<lparr>cache := (cache s1)(normalizePath env R \<mapsto> out)\<rparr>) \<and>
         cache (snd (get env s R)) (normalizePath env R) = Some out \<and>
         (\<forall>env'. normalizePath env' = normalizePath env \<longrightarrow>
            get env' (snd (get env s R)) R = (Inr (content out), snd (get env s R)))"
proof -
  let ?s2 = "s1\<lparr>cache := (cache s1)(normalizePath env R \<mapsto> out)\<rparr>"
  have first: "get env s R = (Inr (content out), ?s2)"
    using assms by (simp add: get_miss)
  have stored: "cache ?s2 (normalizePath env R) = Some out"
    by simp
  have second: "get env' ?s2 R = (Inr (content out), ?s2)"
    if "normalizePath env' = normalizePath env" for env' :: "'a webpack"
    using that by (simp add: get_def)
  show ?thesis
    unfolding first using stored second by simp
qed

text \<open>
  On the example: after the first \<^verbatim>\<open>get('button.scss')\<close> the entry is in the
  cache and one child compiler has run; the second call returns the same content and
  the same loader, also when the child compiler is out of order.
\<close>

theorem get_cache_hit_witness:
  "fst (get exampleWebpack exampleLoader (js ''button.scss'')) = Inr (js ''css'') \<and>
   cache exampleCompiled (js ''button.scss'')
     = Some \<lparr>content = js ''css'', map_opt = None, success = True\<rparr> \<and>
   get exampleWebpack exampleCompiled (js ''button.scss'') = (Inr (js ''css''), exampleCompiled) \<and>
   get exampleWebpackDown exampleCompiled (js ''button.scss'')
     = (Inr (js ''css''), exampleCompiled) \<and>
   parentCompilation exampleCompiled = Some 1"
proof -
  let ?out = "\<lparr>content = js ''css'', map_opt = None, success = True\<rparr>"
  have h1: "cache exampleLoader (normalizePath exampleWebpack (js ''button.scss'')) = None"
    by (simp add: exampleLoader_eq)
  have h3: "success ?out"
    by simp
  have n: "normalizePath exampleWebpack (js ''button.scss'') = js ''button.scss''"
    by (simp add: example_defs js_def)
  have d: "normalizePath exampleWebpackDown = normalizePath exampleWebpack"
    by (simp add: exampleWebpackDown_def)
  note t = get_cache_hit [OF h1 exampleCompile_button h3, folded exampleCompiled_def]
  from t have 1: "fst (get exampleWebpack exampleLoader (js ''button.scss'')) = Inr (js ''css'')"
    by simp
  from t have 2: "cache exampleCompiled (js ''button.scss'') = Some ?out"
    unfolding n by blast
  from t have 3: "get exampleWebpack exampleCompiled (js ''button.scss'')
                    = (Inr (js ''css''), exampleCompiled)"
    by simp
  from t d have 4: "get exampleWebpackDown exampleCompiled (js ''button.scss'')
                      = (Inr (js ''css''), exampleCompiled)"
    by simp
  have 5: "parentCompilation exampleCompiled = Some 1"
    by (simp add: exampleCompiled_eq)
  from 1 2 3 4 5 show ?thesis by simp
qed

text \<open>
  Claim C4. When the compilation of a resource that is not cached returns
  \<open>success = False\<close>, \<open>get\<close> returns its content and writes no cache entry
  for the key; the next \<open>get\<close> of the same key takes the miss branch again and
  runs the child compiler on the parent compilation once more.
\<close>

theorem failed_compile_not_cached:
  assumes "cache s (normalizePath env K) = None"
    and "compile env s (Some K) None None = (Inr out, s1)"
    and "\<not> success out"
  shows "get env s K = (Inr (content out), s1) \<and>
         cache s1 (normalizePath env K) = None \<and>
         get env s1 K =
           (case compile env s1 (Some K) None None of
              (Inl e, s2) \<Rightarrow> (Inl e, s2)
            | (Inr r, s2) \<Rightarrow>
                (Inr (content r),
                 if success r then s2\<lparr>cache := (cache s2)(normalizePath env K \<mapsto> r)\<rparr> else s2)) \<and>
         (\<exists>parent. parentCompilation s1 = Some parent \<and>
            parentCompilation (snd (get env s1 K)) =
              Some (snd (runAsChild env parent
                      (childRequest (outputName s1 (Some K)) (Some K) None None))))"
proof -
  have g1: "get env s K = (Inr (content out), s1)"
    using assms by (simp add: get_miss)
  have "cache s1 = cache s"
    using compile_cache [of env s "Some K" None None] assms(2) by simp
  with assms(1) have miss: "cache s1 (normalizePath env K) = None"
    by simp
  from compile_Inr_bound [OF assms(2)] obtain parent where
    sc: "sanityCheck (Some K) = None" and p: "parentCompilation s1 = Some parent"
    by blast
  have "parentCompilation (snd (get env s1 K)) =
          Some (snd (runAsChild env parent
                  (childRequest (outputName s1 (Some K)) (Some K) None None)))"
    unfolding get_miss_parent [OF miss] by (rule compile_runs_child [OF p sc])
  with g1 miss p show ?thesis
    by (simp add: get_miss)
qed

theorem failed_compile_not_cached_witness:
  "get exampleWebpack exampleLoader (js ''bad.scss'') = (Inr (js ''css''), exampleFailed) \<and>
   cache exampleFailed (js ''bad.scss'') = None \<and>
   parentCompilation exampleFailed = Some 1 \<and>
   parentCompilation (snd (get exampleWebpack exampleFailed (js ''bad.scss''))) = Some 2"
proof -
  let ?out = "\<lparr>content = js ''css'', map_opt = None, success = False\<rparr>"
  have h2: "compile exampleWebpack exampleLoader (Some (js ''bad.scss'')) None None
              = (Inr ?out, exampleFailed)"
    using exampleFailed_output unfolding exampleFailed_def
    by (cases "compile exampleWebpack exampleLoader (Some (js ''bad.scss'')) None None") simp
  have h3: "\<not> success ?out"
    by simp
  from failed_compile_not_cached [OF exampleLoader_cache h2 h3]
  show ?thesis
    by (auto simp: exampleChild_parent exampleFailed_eq example_defs js_def)
qed

section \<open>The nested compilation\<close>

text \<open>
  Claim C6. A file path that ends in \<^verbatim>\<open>.js\<close> or \<^verbatim>\<open>.ts\<close> is rejected before
  any child compiler is built: on a loader with a parent compilation, \<open>compile\<close>
  fails with \<open>UnsupportedResourceType\<close> and returns the loader as it was, parent
  compilation included; so does \<open>get\<close> when the cache has no entry under the
  normalised path.
\<close>

theorem code_resource_rejected:
  assumes "endsWithJsOrTs fp" and "parentCompilation s = Some parent"
  shows "compile env s (Some fp) data mimeType = (Inl (UnsupportedResourceType fp), s) \<and>
         (cache s (normalizePath env fp) = None \<longrightarrow>
            get env s fp = (Inl (UnsupportedResourceType fp), s))"
  using assms by (simp add: compile_def get_def)

theorem code_resource_rejected_witness:
  "compile exampleWebpack exampleLoader (Some (js ''foo.ts'')) None None
     = (Inl (UnsupportedResourceType (js ''foo.ts'')), exampleLoader) \<and>
   get exampleWebpack exampleLoader (js ''foo.ts'')
     = (Inl (UnsupportedResourceType (js ''foo.ts'')), exampleLoader) \<and>
   get exampleWebpack exampleLoader (js ''foo.js'')
     = (Inl (UnsupportedResourceType (js ''foo.js'')), exampleLoader)"
proof -
  have ts: "endsWithJsOrTs (js ''foo.ts'')" and js: "endsWithJsOrTs (js ''foo.js'')"
    by (simp_all add: js_def)
  from code_resource_rejected [OF ts exampleLoader_parent, of exampleWebpack None None]
    code_resource_rejected [OF js exampleLoader_parent, of exampleWebpack None None]
  show ?thesis
    by (simp add: exampleLoader_cache)
qed

text \<open>
  Claim C7. When \<open>compile\<close> is called with a file path (not empty, not a code
  file) and the child compiler hands back a compilation, the call returns an output
  and the files reported by the child compilation are recorded: they are the forward
  set of the path, and the path is in the reverse set of each one, under its
  normalised name. Nothing is assumed about the errors of the compilation: the
  output's \<open>success\<close> may be false.
\<close>

theorem dependencies_recorded:
  assumes "parentCompilation s = Some parent"
    and "fp \<noteq> []"
    and "\<not> endsWithJsOrTs fp"
    and "runAsChild env parent (childRequest fp (Some fp) data mimeType)
           = (ChildCompilation compilation, parent')"
  shows "(\<exists>out. fst (compile env s (Some fp) data mimeType) = Inr out \<and>
                success out = (errors (additionalAssets env fp compilation) = [])) \<and>
         set (getResourceDependencies (snd (compile env s (Some fp) data mimeType)) fp)
           = set (child_fileDependencies compilation) \<and>
         (\<forall>f\<in>set (child_fileDependencies compilation).
            fp \<in> set (getAffectedResources (snd (compile env s (Some fp) data mimeType))
                        (normalizePath env f)))"
proof -
  have n: "outputName s (Some fp) = fp"
    using assms(2) by (simp add: outputName_def)
  have sc: "sanityCheck (Some fp) = None"
    using assms(3) by simp
  note c = compile_completed [OF assms(1) sc, of env data mimeType compilation parent',
      unfolded n, OF assms(4)]
  show ?thesis
    unfolding c set_getResourceDependencies set_getAffectedResources
    using assms(2)
    by (simp add: saveDependencies_forward saveDependencies_reverse resolveOutput_def)
qed

text \<open>On the example, the failed build of \<^verbatim>\<open>bad.scss\<close> has its files recorded.\<close>

theorem dependencies_recorded_witness:
  "(\<exists>out. fst (compile exampleWebpack exampleLoader (Some (js ''bad.scss'')) None None) = Inr out
      \<and> \<not> success out) \<and>
   set (getResourceDependencies exampleFailed (js ''bad.scss''))
     = {js ''bad.scss'', js ''_vars.scss''} \<and>
   js ''bad.scss'' \<in> set (getAffectedResources exampleFailed (js ''_vars.scss''))"
proof -
  let ?c = "\<lparr>assets = [js ''bad.scss'' \<mapsto> js ''S''],
             errors = [NestedCompilationError (js ''bad'')],
             child_fileDependencies = [js ''bad.scss'', js ''_vars.scss'']\<rparr>"
  have h2: "js ''bad.scss'' \<noteq> []" and h3: "\<not> endsWithJsOrTs (js ''bad.scss'')"
    by (simp_all add: js_def)
  have h4: "runAsChild exampleWebpack 0 (childRequest (js ''bad.scss'') (Some (js ''bad.scss'')) None None)
              = (ChildCompilation ?c, 1)"
    by (simp add: example_defs childRequest_def js_def)
  have e: "errors (additionalAssets exampleWebpack (js ''bad.scss'') ?c) \<noteq> []"
    by (simp add: additionalAssets_def split: option.splits sum.splits)
  have n: "normalizePath exampleWebpack (js ''_vars.scss'') = js ''_vars.scss''"
    by (simp add: example_defs js_def)
  from dependencies_recorded [OF exampleLoader_parent h2 h3 h4]
  show ?thesis
    unfolding exampleFailed_def [symmetric] using e n by auto
qed

text \<open>
  Claim C8, as the code has it. An evaluation that ends with a value that is neither a
  string nor an object with a string \<^verbatim>\<open>default\<close> makes \<open>evaluate\<close> raise
  \<open>InvalidResourceExport\<close>; the tap on \<^verbatim>\<open>additionalAssets\<close> catches it and
  pushes it on the errors of the child compilation. So \<open>compile\<close> and \<open>get\<close> do
  not fail: they return the emitted asset, unevaluated, with \<open>success = False\<close>,
  and \<open>get\<close> caches nothing. An evaluation that throws makes \<open>evaluate\<close> return
  null; the tap adds no error, and \<open>success\<close> is that of the child compilation.
\<close>

theorem invalid_export_is_build_error:
  assumes "parentCompilation s = Some parent"
    and "\<not> endsWithJsOrTs K"
    and "runAsChild env parent (childRequest (outputName s (Some K)) (Some K) None None)
           = (ChildCompilation c, parent')"
    and "assets c (outputName s (Some K)) = Some source"
    and "cache s (normalizePath env K) = None"
  shows
    "(\<forall>v. runInNewContext env source (outputName s (Some K)) = VmDone v \<and> exportedString v = None
        \<longrightarrow> evaluate env (outputName s (Some K)) source
              = Inl (InvalidResourceExport (outputName s (Some K))) \<and>
            (\<exists>out. fst (compile env s (Some K) None None) = Inr out \<and>
                   \<not> success out \<and> content out = source) \<and>
            fst (get env s K) = Inr source \<and>
            cache (snd (get env s K)) = cache s) \<and>
     (runInNewContext env source (outputName s (Some K)) = VmThrows
        \<longrightarrow> evaluate env (outputName s (Some K)) source = Inr None \<and>
            (\<exists>out. fst (compile env s (Some K) None None) = Inr out \<and>
                   success out = (errors c = []) \<and> content out = source) \<and>
            fst (get env s K) = Inr source)"
proof -
  let ?o = "outputName s (Some K)"
  have sc: "sanityCheck (Some K) = None"
    using assms(2) by simp
  note cc = compile_completed [OF assms(1) sc assms(3)]
  show ?thesis
  proof (intro conjI allI impI)
    fix v
    assume a: "runInNewContext env source ?o = VmDone v \<and> exportedString v = None"
    then show ev: "evaluate env ?o source = Inl (InvalidResourceExport ?o)"
      by (simp add: evaluate_def)
    have hook: "additionalAssets env ?o c = c\<lparr>errors := errors c @ [InvalidResourceExport ?o]\<rparr>"
      using assms(4) ev by (simp add: additionalAssets_def)
    have out: "fst (compile env s (Some K) None None)
                 = Inr \<lparr>content = source, map_opt = assets c (?o @ js ''.map''), success = False\<rparr>"
      unfolding cc hook using assms(4) by (simp add: resolveOutput_def)
    then show "\<exists>out. fst (compile env s (Some K) None None) = Inr out \<and>
                   \<not> success out \<and> content out = source"
      by simp
    from get_miss_fst [OF assms(5) out]
    show "fst (get env s K) = Inr source" and "cache (snd (get env s K)) = cache s"
      by simp_all
  next
    assume a: "runInNewContext env source ?o = VmThrows"
    then show ev: "evaluate env ?o source = Inr None"
      by (simp add: evaluate_def)
    have hook: "additionalAssets env ?o c = c"
      using assms(4) ev by (simp add: additionalAssets_def)
    have out: "fst (compile env s (Some K) None None)
                 = Inr \<lparr>content = source, map_opt = assets c (?o @ js ''.map''),
                        success = (errors c = [])\<rparr>"
      unfolding cc hook using assms(4) by (simp add: resolveOutput_def)
    then show "\<exists>out. fst (compile env s (Some K) None None) = Inr out \<and>
                   success out = (errors c = []) \<and> content out = source"
      by simp
    from get_miss_fst [OF assms(5) out]
    show "fst (get env s K) = Inr source"
      by simp
  qed
qed

text \<open>
  Claim C8, as stated, fails: the asset of \<^verbatim>\<open>num.css\<close> evaluates to the number 5,
  and \<^verbatim>\<open>get('num.css')\<close> returns the asset instead of failing.
\<close>

theorem invalid_export_counterexample:
  "runInNewContext exampleWebpack (js ''N'') (js ''num.css'') = VmDone (JNumber 5) \<and>
   exportedString (JNumber 5) = None \<and>
   fst (get exampleWebpack exampleLoader (js ''num.css'')) = Inr (js ''N'')"
  by (simp add: exampleLoader_eq loader_defs example_defs js_def)

theorem invalid_export_is_build_error_witness:
  "evaluate exampleWebpack (js ''num.css'') (js ''N'') = Inl (InvalidResourceExport (js ''num.css'')) \<and>
   fst (get exampleWebpack exampleLoader (js ''num.css'')) = Inr (js ''N'') \<and>
   cache (snd (get exampleWebpack exampleLoader (js ''num.css''))) = cache exampleLoader \<and>
   evaluate exampleWebpack (js ''throw.css'') (js ''T'') = Inr None \<and>
   fst (get exampleWebpack exampleLoader (js ''throw.css'')) = Inr (js ''T'')"
proof -
  have o: "outputName exampleLoader (Some (js ''num.css'')) = js ''num.css''"
    "outputName exampleLoader (Some (js ''throw.css'')) = js ''throw.css''"
    by (simp_all add: outputName_def js_def)
  have h2: "\<not> endsWithJsOrTs (js ''num.css'')" "\<not> endsWithJsOrTs (js ''throw.css'')"
    by (simp_all add: js_def)
  let ?n = "\<lparr>assets = [js ''num.css'' \<mapsto> js ''N''], errors = [],
             child_fileDependencies = [js ''num.css'', js ''_vars.scss'']\<rparr>"
  let ?t = "\<lparr>assets = [js ''throw.css'' \<mapsto> js ''T''], errors = [],
             child_fileDependencies = [js ''throw.css'', js ''_vars.scss'']\<rparr>"
  have n3: "runAsChild exampleWebpack 0
              (childRequest (outputName exampleLoader (Some (js ''num.css'')))
                 (Some (js ''num.css'')) None None) = (ChildCompilation ?n, 1)"
    unfolding o by (simp add: example_defs childRequest_def js_def)
  have t3: "runAsChild exampleWebpack 0
              (childRequest (outputName exampleLoader (Some (js ''throw.css'')))
                 (Some (js ''throw.css'')) None None) = (ChildCompilation ?t, 1)"
    unfolding o by (simp add: example_defs childRequest_def js_def)
  have n4: "assets ?n (outputName exampleLoader (Some (js ''num.css''))) = Some (js ''N'')"
    unfolding o by simp
  have t4: "assets ?t (outputName exampleLoader (Some (js ''throw.css''))) = Some (js ''T'')"
    unfolding o by simp
  have vn: "runInNewContext exampleWebpack (js ''N'') (js ''num.css'') = VmDone (JNumber 5)"
    and vt: "runInNewContext exampleWebpack (js ''T'') (js ''throw.css'') = VmThrows"
    by (simp_all add: example_defs js_def)
  note a = invalid_export_is_build_error
    [OF exampleLoader_parent h2(1) n3 n4 exampleLoader_cache, unfolded o]
  note b = invalid_export_is_build_error
    [OF exampleLoader_parent h2(2) t3 t4 exampleLoader_cache, unfolded o]
  from a vn have "evaluate exampleWebpack (js ''num.css'') (js ''N'')
        = Inl (InvalidResourceExport (js ''num.css'')) \<and>
      fst (get exampleWebpack exampleLoader (js ''num.css'')) = Inr (js ''N'') \<and>
      cache (snd (get exampleWebpack exampleLoader (js ''num.css''))) = cache exampleLoader"
    by simp
  moreover from b vt have "evaluate exampleWebpack (js ''throw.css'') (js ''T'') = Inr None \<and>
      fst (get exampleWebpack exampleLoader (js ''throw.css'')) = Inr (js ''T'')"
    by simp
  ultimately show ?thesis by simp
qed

section \<open>The dependency graph\<close>

text \<open>
  Claim C1, as the code has it. Recording the files of a resource replaces its forward
  set and adds the resource to the reverse set of every recorded file, under the
  normalised name; it removes nothing from any reverse set. After recording
  \<open>{A, B}\<close> and then \<open>{B, C}\<close> for \<open>R\<close>, the forward set of \<open>R\<close> is
  \<open>{B, C}\<close> and the reverse sets of \<open>A\<close>, \<open>B\<close> and \<open>C\<close> all hold \<open>R\<close>.
  One half of the invariant is kept, by recording and by \<open>compile\<close>, \<open>get\<close>,
  \<open>process\<close> and \<open>update\<close>: a file in the forward set of a resource has the
  resource in the reverse set of its normalised name.
\<close>

theorem recording_keeps_reverse_edges:
  assumes "R \<noteq> []"
  shows "set (getResourceDependencies (saveDependencies env s (Some R) files) R) = set files \<and>
    (\<forall>F\<in>set files.
       R \<in> set (getAffectedResources (saveDependencies env s (Some R) files)
                  (normalizePath env F))) \<and>
    (\<forall>k. set (getAffectedResources s k)
            \<subseteq> set (getAffectedResources (saveDependencies env s (Some R) files) k)) \<and>
    (\<forall>X\<in>{A, B, C}.
       R \<in> set (getAffectedResources
                  (saveDependencies env (saveDependencies env s (Some R) [A, B]) (Some R) [B, C])
                  (normalizePath env X))) \<and>
    set (getResourceDependencies
          (saveDependencies env (saveDependencies env s (Some R) [A, B]) (Some R) [B, C]) R)
      = {B, C} \<and>
    (forwardInReverse env s \<longrightarrow>
       forwardInReverse env (saveDependencies env s (Some R) files) \<and>
       forwardInReverse env (snd (compile env s filePath data mimeType)) \<and>
       forwardInReverse env (snd (get env s K)) \<and>
       forwardInReverse env (snd (process env s inlineData mimeType')) \<and>
       forwardInReverse env (update env s parent changedFiles))"
proof (intro conjI)
  show "set (getResourceDependencies (saveDependencies env s (Some R) files) R) = set files"
    using assms by (simp add: set_getResourceDependencies saveDependencies_forward)
  show "\<forall>F\<in>set files.
       R \<in> set (getAffectedResources (saveDependencies env s (Some R) files)
                  (normalizePath env F))"
    using assms by (simp add: set_getAffectedResources saveDependencies_reverse)
  show "\<forall>k. set (getAffectedResources s k)
            \<subseteq> set (getAffectedResources (saveDependencies env s (Some R) files) k)"
    by (simp add: saveDependencies_grows)
  show "\<forall>X\<in>{A, B, C}.
       R \<in> set (getAffectedResources
                  (saveDependencies env (saveDependencies env s (Some R) [A, B]) (Some R) [B, C])
                  (normalizePath env X))"
    using assms by (simp add: set_getAffectedResources saveDependencies_reverse)
  show "set (getResourceDependencies
          (saveDependencies env (saveDependencies env s (Some R) [A, B]) (Some R) [B, C]) R)
      = {B, C}"
    using assms by (simp add: set_getResourceDependencies saveDependencies_forward)
  show "forwardInReverse env s \<longrightarrow>
       forwardInReverse env (saveDependencies env s (Some R) files) \<and>
       forwardInReverse env (snd (compile env s filePath data mimeType)) \<and>
       forwardInReverse env (snd (get env s K)) \<and>
       forwardInReverse env (snd (process env s inlineData mimeType')) \<and>
       forwardInReverse env (update env s parent changedFiles)"
    by (simp add: forwardInReverse_saveDependencies forwardInReverse_compile
        forwardInReverse_get forwardInReverse_process forwardInReverse_update)
qed

text \<open>
  Claim C1, as stated, fails: after two compilations of \<open>R\<close>, the first reading
  \<open>A\<close> and \<open>B\<close>, the second \<open>B\<close> and \<open>C\<close>, the dependents of \<open>A\<close>
  still hold \<open>R\<close>, while \<open>A\<close> is no longer a dependency of \<open>R\<close>.
\<close>

theorem stale_edge_counterexample:
  "js ''R'' \<in> set (getAffectedResources exampleRerecorded (js ''A'')) \<and>
   js ''A'' \<notin> set (getResourceDependencies exampleRerecorded (js ''R''))"
  by (simp add: exampleRerecorded_eq getAffectedResources_def getResourceDependencies_def js_def)

theorem recording_keeps_reverse_edges_witness:
  "js ''R'' \<in> set (getAffectedResources
      (saveDependencies exampleWebpack
         (saveDependencies exampleWebpack exampleLoader (Some (js ''R'')) [js ''A'', js ''B''])
         (Some (js ''R'')) [js ''B'', js ''C''])
      (js ''A'')) \<and>
   set (getResourceDependencies
      (saveDependencies exampleWebpack
         (saveDependencies exampleWebpack exampleLoader (Some (js ''R'')) [js ''A'', js ''B''])
         (Some (js ''R'')) [js ''B'', js ''C''])
      (js ''R'')) = {js ''B'', js ''C''} \<and>
   js ''button.scss'' \<in> set (getAffectedResources exampleCompiled (js ''_vars.scss''))"
proof -
  have r: "js ''R'' \<noteq> []"
    by (simp add: js_def)
  note t = recording_keeps_reverse_edges [OF r, of exampleWebpack exampleLoader _
      "js ''A''" "js ''B''" "js ''C''"]
  have n: "normalizePath exampleWebpack (js ''A'') = js ''A''"
    "normalizePath exampleWebpack (js ''_vars.scss'') = js ''_vars.scss''"
    by (simp_all add: example_defs js_def)
  have 1: "js ''R'' \<in> set (getAffectedResources
      (saveDependencies exampleWebpack
         (saveDependencies exampleWebpack exampleLoader (Some (js ''R'')) [js ''A'', js ''B''])
         (Some (js ''R'')) [js ''B'', js ''C''])
      (js ''A''))"
    using t n by simp
  have 2: "set (getResourceDependencies
      (saveDependencies exampleWebpack
         (saveDependencies exampleWebpack exampleLoader (Some (js ''R'')) [js ''A'', js ''B''])
         (Some (js ''R'')) [js ''B'', js ''C''])
      (js ''R'')) = {js ''B'', js ''C''}"
    using t by simp
  have "forwardInReverse exampleWebpack (snd (get exampleWebpack exampleLoader (js ''button.scss'')))"
    using recording_keeps_reverse_edges [of "js ''button.scss''" exampleWebpack exampleLoader]
      forwardInReverse_exampleLoader
    by (simp add: js_def)
  then have inv: "forwardInReverse exampleWebpack exampleCompiled"
    by (simp add: exampleCompiled_def)
  have "js ''_vars.scss'' \<in> set (getResourceDependencies exampleCompiled (js ''button.scss''))"
    by (simp add: exampleCompiled_eq getResourceDependencies_def js_def)
  with inv n have 3: "js ''button.scss'' \<in> set (getAffectedResources exampleCompiled (js ''_vars.scss''))"
    unfolding forwardInReverse_def by metis
  from 1 2 3 show ?thesis by simp
qed

end
